theory Spec2Isabelle
  imports
    Main
    "HOL-Library.Word"
    "HOL-Library.Sublist"
    "HOL-Library.Char_ord"
    "HOL-Library.List_Lexorder"
begin

section \<open>The request helper of package web (pkg/web.go)\<close>

text \<open>
  The package has one operation with behaviour of its own, \<^verbatim>\<open>(*Req).Submit\<close>. It
  mutates the descriptor it is called on, writes to the log, and calls into net/http and
  the YAML codec. The model makes all of that explicit: \<open>Submit\<close> takes the descriptor
  and returns the error value, the descriptor as it is left behind, and the list of the
  effects in the order they happened.

  Go strings are byte sequences, and so are Isabelle's: \<open>length\<close> is Go's \<^verbatim>\<open>len\<close>.
\<close>

subsection \<open>Standard-library functions the code calls\<close>

text \<open>
  \<^verbatim>\<open>strings.Index(s, sub)\<close>: the position of the first occurrence of \<open>sub\<close> in
  \<open>s\<close>, or \<open>-1\<close>.
\<close>

fun strings_Index :: "string \<Rightarrow> string \<Rightarrow> int" where
  "strings_Index [] sub = (if sub = [] then 0 else - 1)"
| "strings_Index (c # cs) sub =
     (if prefix sub (c # cs) then 0
      else (let i = strings_Index cs sub in if i < 0 then - 1 else i + 1))"

text \<open>
  \<^verbatim>\<open>strconv.Itoa\<close>: the decimal digits of an integer, with a minus sign when it
  is negative.
\<close>

definition digit :: "nat \<Rightarrow> char" where
  "digit d = ''0123456789ABCDEF'' ! d"

fun FormatUint :: "nat \<Rightarrow> string" where
  "FormatUint n = (if n < 10 then [digit n] else FormatUint (n div 10) @ [digit (n mod 10)])"

declare FormatUint.simps [simp del]

definition Itoa :: "int \<Rightarrow> string" where
  "Itoa i = (if i < 0 then CHR ''-'' # FormatUint (nat (- i)) else FormatUint (nat i))"

text \<open>
  \<^verbatim>\<open>url.QueryEscape\<close>: letters, digits and \<^verbatim>\<open>- _ . ~\<close> stay, a space becomes
  \<^verbatim>\<open>+\<close>, every other byte becomes \<^verbatim>\<open>%XX\<close> in upper-case hexadecimal.
\<close>

definition shouldEscape :: "char \<Rightarrow> bool" where
  "shouldEscape c =
     (let n = (of_char c :: nat) in
      if (97 \<le> n \<and> n \<le> 122) \<or> (65 \<le> n \<and> n \<le> 90) \<or> (48 \<le> n \<and> n \<le> 57) then False
      else if c \<in> set ''-_.~'' then False
      else True)"

definition escape_byte :: "char \<Rightarrow> string" where
  "escape_byte c =
     (if shouldEscape c then
        (if c = CHR '' '' then ''+''
         else [CHR ''%'', digit ((of_char c :: nat) div 16), digit ((of_char c :: nat) mod 16)])
      else [c])"

definition QueryEscape :: "string \<Rightarrow> string" where
  "QueryEscape s = concat (map escape_byte s)"

text \<open>
  \<^verbatim>\<open>url.Values\<close> is \<^verbatim>\<open>map[string][]string\<close>; the model is an association list read
  through \<open>map_of\<close>, so a key has one list of values, and the nil map is \<open>[]\<close>.
  \<^verbatim>\<open>Values.Encode\<close> walks the keys in sorted order and writes \<^verbatim>\<open>key=value\<close> for every
  value of every key, joined by \<^verbatim>\<open>&\<close>.
\<close>

type_synonym url_Values = "(string \<times> string list) list"

fun join_amp :: "string list \<Rightarrow> string" where
  "join_amp [] = []"
| "join_amp [x] = x"
| "join_amp (x # y # ys) = x @ ''&'' @ join_amp (y # ys)"

definition values_of :: "url_Values \<Rightarrow> string \<Rightarrow> string list" where
  "values_of v k = (case map_of v k of None \<Rightarrow> [] | Some vs \<Rightarrow> vs)"

definition Encode :: "url_Values \<Rightarrow> string" where
  "Encode v =
     join_amp (concat (map (\<lambda>k. map (\<lambda>x. QueryEscape k @ ''='' @ QueryEscape x) (values_of v k))
                           (sort (remdups (map fst v)))))"

subsection \<open>Data model\<close>

text \<open>
  \<^verbatim>\<open>Req.Body\<close> has type \<^verbatim>\<open>any\<close>, and the type switch of \<open>Submit\<close> looks at its
  dynamic type only. The model keeps what the switch can see: the nil interface, the three
  concrete types it names, and for a value of any other type the interfaces that type
  implements, each with what the call made in that case returns (\<open>None\<close>: the type does
  not implement the interface; \<open>Inl\<close>: the call returns that error).
\<close>

record other_body =
  yaml_Marshal :: "(string + string) option"  \<comment> \<open>yaml.Marshaler, result of yaml.Marshal(v)\<close>
  json_Marshal :: "(string + string) option"  \<comment> \<open>json.Marshaler, result of json.Marshal(v)\<close>
  MarshalText :: "(string + string) option"   \<comment> \<open>encoding.TextMarshaler, v.MarshalText()\<close>
  Stringer :: "string option"                 \<comment> \<open>fmt.Stringer, v.String()\<close>
  Sprintf_v :: string                         \<comment> \<open>fmt.Sprintf("%v", v)\<close>

datatype body_any =
    BodyValues url_Values
  | BodyBytes string
  | BodyString string
  | BodyOther other_body
  | BodyNil

text \<open>
  \<^verbatim>\<open>Req.Data\<close> is the destination, again of type \<^verbatim>\<open>any\<close>. \<open>dyn\<close> is the content
  a destination holds. A \<^verbatim>\<open>map[string]any\<close> is the nil map (\<open>None\<close>) or a map with
  entries. A destination of any other type has the interfaces its type implements and
  its \<open>target\<close>: the storage it points to when it is a pointer that is not nil, and
  \<open>None\<close> when it is a nil pointer or no pointer at all, so that nothing can be stored
  through it.
\<close>

datatype dyn = DynNull | DynInt int | DynStr string | DynSeq "dyn list" | DynMap "(string \<times> dyn) list"

record other_data =
  is_yaml_Unmarshaler :: bool
  is_io_Writer :: bool
  is_rwxjson_This :: bool
  target :: "dyn option"

datatype data_any =
    DataMap "(string \<times> dyn) list option"
  | DataString string
  | DataBytes string
  | DataOther other_data
  | DataNil

text \<open>
  An \<^verbatim>\<open>*http.Response\<close>, as far as \<open>Submit\<close> reads it. \<open>ResBody\<close> is what
  \<^verbatim>\<open>io.ReadAll(res.Body)\<close> returns: the bytes, or (\<open>Inl\<close>) the error of the failed
  read.
\<close>

record http_Response =
  Status :: string
  StatusCode :: int
  ResBody :: "string + string"

text \<open>
  How a call of \<open>Submit\<close> can end other than by returning nil: with one of the two
  errors of the package, with an error that a library call made, or with a panic that a
  library call raised. \<open>Submit\<close> recovers from nothing, so with a panic it does not
  return.
\<close>

datatype error =
    ReqSyntaxError string
  | HTTPError http_Response
  | ExtError string  \<comment> \<open>an error made by net/http, io or a codec, passed on as it is\<close>
  | Panic string     \<comment> \<open>no return: a panic with this message unwinds through \<open>Submit\<close>\<close>

text \<open>
  \<^verbatim>\<open>Req.Resp\<close> has type \<^verbatim>\<open>any\<close>: the nil interface until \<open>Submit\<close> stores the
  \<^verbatim>\<open>*http.Response\<close> it got, which is a nil pointer when there was none.
\<close>

datatype resp_any = RespNil | RespPtr "http_Response option"

datatype Context = Ctx string

record Req =
  Method :: string
  URL :: string
  Query :: url_Values
  Headers :: "(string \<rightharpoonup> string) option"  \<comment> \<open>\<open>None\<close> is the nil map\<close>
  Body :: body_any
  Data :: data_any
  Context :: "Context option"
  Resp :: resp_any

text \<open>
  The \<^verbatim>\<open>*http.Request\<close> that \<open>Submit\<close> builds. \<open>rq_Deadline\<close> is the duration of
  the timeout context attached to it, in nanoseconds (\<^verbatim>\<open>time.Duration\<close> is an int64).
\<close>

record http_Request =
  rq_Method :: string
  rq_URL :: string
  rq_Body :: string
  rq_Header :: "string \<rightharpoonup> string"
  rq_Deadline :: "64 word option"

text \<open>
  \<^verbatim>\<open>Client.Do\<close> returns a response and no error, or an error; with an error the
  response is nil, except when a redirect policy failed.
\<close>

datatype do_result = DoResp http_Response | DoErr "http_Response option" string

text \<open>
  \<^verbatim>\<open>yaml.Unmarshal(in, out)\<close> ends in one of three ways: it returns nil, it returns an
  error (a document that does not parse, a value that does not fit the destination), or
  it panics. It recovers from its own failures only, and the reflection it uses on
  \<^verbatim>\<open>out\<close> panics where \<^verbatim>\<open>out\<close> cannot take the document: with the nil interface as
  soon as there is a document, with a nil map or a value that is no pointer as soon as
  something has to be stored.
\<close>

datatype codec_end = Decoded | DecodeError string | DecodePanic string

text \<open>
  The package globals \<^verbatim>\<open>TimeOut\<close> and \<^verbatim>\<open>Client\<close>, and the two library calls whose
  outcome the code only passes on: the validation \<^verbatim>\<open>http.NewRequest\<close> does on method
  and URL, and \<^verbatim>\<open>yaml.Unmarshal\<close> into a destination, with the destination as the
  call leaves it.
\<close>

record env =
  TimeOut :: "64 word"
  http_NewRequest :: "string \<Rightarrow> string \<Rightarrow> string option"
  Client_Do :: "http_Request \<Rightarrow> do_result"
  yaml_Unmarshal :: "string \<Rightarrow> data_any \<Rightarrow> codec_end \<times> data_any"

datatype event =
    Log string                        \<comment> \<open>log.Println\<close>
  | NewRequest string string string   \<comment> \<open>http.NewRequest(method, url, body)\<close>
  | Do http_Request                   \<comment> \<open>Client.Do\<close>
  | Unmarshal string                  \<comment> \<open>yaml.Unmarshal(resbytes, req.Data)\<close>
  | Cancel                            \<comment> \<open>the deferred cancel()\<close>

record result =
  ret_err :: "error option"
  ret_req :: Req
  ret_trace :: "event list"

subsection \<open>Submit\<close>

text \<open>
  The switch on the body's type (web.go, lines 141 to 172): the serialized body, the
  headers as the case leaves them, and what it logged; or the marshalling error.
\<close>

definition marshalled ::
  "(string + string) \<Rightarrow> (string \<rightharpoonup> string) \<Rightarrow> string + string \<times> (string \<rightharpoonup> string) \<times> event list"
where
  "marshalled r hdrs = (case r of Inl e \<Rightarrow> Inl e | Inr byt \<Rightarrow> Inr (byt, hdrs, []))"

definition body_switch ::
  "body_any \<Rightarrow> (string \<rightharpoonup> string) \<Rightarrow> string + string \<times> (string \<rightharpoonup> string) \<times> event list"
where
  "body_switch v hdrs =
     (case v of
        BodyValues q \<Rightarrow>
          Inr (Encode q, hdrs(''Content-Type'' \<mapsto> ''application/x-www-form-urlencoded''), [])
      | BodyBytes b \<Rightarrow> Inr ([], hdrs, [Log ''planned, but unimplemented, would uuencode''])
      | BodyString s \<Rightarrow> Inr (s, hdrs, [])
      | BodyOther ob \<Rightarrow>
          (case yaml_Marshal ob of
             Some r \<Rightarrow> marshalled r hdrs
           | None \<Rightarrow>
          (case json_Marshal ob of
             Some r \<Rightarrow> marshalled r hdrs
           | None \<Rightarrow>
          (case MarshalText ob of
             Some r \<Rightarrow> marshalled r hdrs
           | None \<Rightarrow>
          (case Stringer ob of
             Some s \<Rightarrow> Inr (s, hdrs, [])
           | None \<Rightarrow> Inr (Sprintf_v ob, hdrs, [])))))
      | BodyNil \<Rightarrow> Inr (''<nil>'', hdrs, []))"

text \<open>
  \<^verbatim>\<open>return yaml.Unmarshal(resbytes, req.Data)\<close>: nil, the error of the codec, or its
  panic, which nothing between the codec and the caller of \<open>Submit\<close> recovers.
\<close>

definition unmarshal_into :: "env \<Rightarrow> string \<Rightarrow> data_any \<Rightarrow> error option \<times> data_any \<times> event list" where
  "unmarshal_into e resbytes d =
     (case yaml_Unmarshal e resbytes d of
        (Decoded, d') \<Rightarrow> (None, d', [Unmarshal resbytes])
      | (DecodeError msg, d') \<Rightarrow> (Some (ExtError msg), d', [Unmarshal resbytes])
      | (DecodePanic msg, d') \<Rightarrow> (Some (Panic msg), d', [Unmarshal resbytes]))"

text \<open>
  The switch on the destination's type (lines 215 to 233): how it ends, the destination
  as it is left, and the effects.
\<close>

definition data_switch :: "env \<Rightarrow> string \<Rightarrow> data_any \<Rightarrow> error option \<times> data_any \<times> event list" where
  "data_switch e resbytes d =
     (case d of
        DataMap m \<Rightarrow> unmarshal_into e resbytes d
      | DataString s \<Rightarrow> (None, DataString resbytes, [])
      | DataBytes b \<Rightarrow> (None, d, [Log ''planned, but unimplemented, would uuencode''])
      | DataOther od \<Rightarrow>
          (if is_yaml_Unmarshaler od then unmarshal_into e resbytes d
           else if is_io_Writer od then (None, d, [])
           else if is_rwxjson_This od then (None, d, [Log ''rwxjson, planned, but unimplemented''])
           else unmarshal_into e resbytes d)
      | DataNil \<Rightarrow> unmarshal_into e resbytes d)"

text \<open>
  Lines 195 to 235: the call, the response stored on the descriptor, the classification
  of the outcome, and the decoding. \<open>tr\<close> is what happened before, \<open>fin\<close> the deferred
  call that runs at every return from here on, and also when a panic unwinds.
\<close>

definition transact :: "env \<Rightarrow> Req \<Rightarrow> event list \<Rightarrow> event list \<Rightarrow> http_Request \<Rightarrow> result" where
  "transact e req tr fin httpreq =
     (case Client_Do e httpreq of
        DoErr res msg \<Rightarrow>
          \<lparr>ret_err = Some (ExtError msg), ret_req = req\<lparr>Resp := RespPtr res\<rparr>,
           ret_trace = tr @ [Do httpreq] @ fin\<rparr>
      | DoResp res \<Rightarrow>
          (let req' = req\<lparr>Resp := RespPtr (Some res)\<rparr> in
           if \<not> (200 \<le> StatusCode res \<and> StatusCode res < 300) then
             \<lparr>ret_err = Some (HTTPError res), ret_req = req', ret_trace = tr @ [Do httpreq] @ fin\<rparr>
           else
             (case ResBody res of
                Inl msg \<Rightarrow>
                  \<lparr>ret_err = Some (ExtError msg), ret_req = req',
                   ret_trace = tr @ [Do httpreq] @ fin\<rparr>
              | Inr resbytes \<Rightarrow>
                  if length resbytes = 0 then
                    \<lparr>ret_err = None, ret_req = req', ret_trace = tr @ [Do httpreq] @ fin\<rparr>
                  else
                    (case data_switch e resbytes (Data req') of
                       (r, d, evs) \<Rightarrow>
                         \<lparr>ret_err = r, ret_req = req'\<lparr>Data := d\<rparr>,
                          ret_trace = tr @ [Do httpreq] @ evs @ fin\<rparr>))))"

text \<open>
  Lines 125 to 193 and the call of the rest. The request keeps the headers of the
  descriptor as they are after line 175.
\<close>

definition Submit :: "env \<Rightarrow> Req \<Rightarrow> result" where
  "Submit e req0 =
     (let req1 = (if Method req0 = [] then req0\<lparr>Method := ''GET''\<rparr> else req0) in
      if strings_Index (URL req1) ''?'' \<ge> 0 then
        \<lparr>ret_err = Some (ReqSyntaxError ''URL contains '?' (use Query instead)''),
         ret_req = req1, ret_trace = []\<rparr>
      else
        (let req2 = req1\<lparr>URL := URL req1 @ ''?'' @ Encode (Query req1)\<rparr>;
             hdrs0 = (case Headers req2 of None \<Rightarrow> Map.empty | Some h \<Rightarrow> h);
             req3 = req2\<lparr>Headers := Some hdrs0\<rparr>
         in case body_switch (Body req3) hdrs0 of
              Inl msg \<Rightarrow> \<lparr>ret_err = Some (ExtError msg), ret_req = req3, ret_trace = []\<rparr>
            | Inr (buf, hdrs1, logs) \<Rightarrow>
                (let hdrs2 = hdrs1(''Content-Length'' \<mapsto> Itoa (int (length buf)));
                     req4 = req3\<lparr>Headers := Some hdrs2\<rparr>;
                     tr = logs @ [NewRequest (Method req4) (URL req4) buf]
                 in case http_NewRequest e (Method req4) (URL req4) of
                      Some msg \<Rightarrow> \<lparr>ret_err = Some (ExtError msg), ret_req = req4, ret_trace = tr\<rparr>
                    | None \<Rightarrow>
                        (if Context req4 = None then
                           transact e req4 tr [Cancel]
                             \<lparr>rq_Method = Method req4, rq_URL = URL req4, rq_Body = buf,
                              rq_Header = hdrs2,
                              rq_Deadline = Some (1000000000 * TimeOut e)\<rparr>
                         else
                           transact e req4 tr []
                             \<lparr>rq_Method = Method req4, rq_URL = URL req4, rq_Body = buf,
                              rq_Header = hdrs2, rq_Deadline = None\<rparr>))))"

subsection \<open>Observations on a run\<close>

text \<open>What a run did on the network: the requests handed to the client.\<close>

fun sent :: "event list \<Rightarrow> http_Request list" where
  "sent [] = []"
| "sent (Do rq # evs) = rq # sent evs"
| "sent (_ # evs) = sent evs"

text \<open>What a run did after the call of the client.\<close>

fun after_Do :: "event list \<Rightarrow> event list" where
  "after_Do [] = []"
| "after_Do (Do rq # evs) = evs"
| "after_Do (_ # evs) = after_Do evs"

subsection \<open>The dispatch on the body as the specification words it\<close>

text \<open>
  The specification gives the body serialization as a list of cases in priority order,
  the first matching one winning. \<open>spec_cases\<close> is that list, each case with its own
  test of the value, and \<open>first_match\<close> walks it. The last case takes whatever none of
  the concrete types above it took.
\<close>

datatype body_kind =
    FormEncoded | RawBinary | PlainString | YAMLMarshalable | JSONMarshalable
  | TextMarshalable | CustomString | GenericDefault

type_synonym serialized = "string + string \<times> (string \<rightharpoonup> string) \<times> event list"

definition spec_cases :: "(body_kind \<times> (body_any \<Rightarrow> (string \<rightharpoonup> string) \<Rightarrow> serialized option)) list" where
  "spec_cases =
     [(FormEncoded, \<lambda>v h. case v of
          BodyValues q \<Rightarrow>
            Some (Inr (Encode q, h(''Content-Type'' \<mapsto> ''application/x-www-form-urlencoded''), []))
        | _ \<Rightarrow> None),
      (RawBinary, \<lambda>v h. case v of
          BodyBytes b \<Rightarrow> Some (Inr ([], h, [Log ''planned, but unimplemented, would uuencode'']))
        | _ \<Rightarrow> None),
      (PlainString, \<lambda>v h. case v of BodyString s \<Rightarrow> Some (Inr (s, h, [])) | _ \<Rightarrow> None),
      (YAMLMarshalable, \<lambda>v h. case v of
          BodyOther ob \<Rightarrow> map_option (\<lambda>r. marshalled r h) (yaml_Marshal ob)
        | _ \<Rightarrow> None),
      (JSONMarshalable, \<lambda>v h. case v of
          BodyOther ob \<Rightarrow> map_option (\<lambda>r. marshalled r h) (json_Marshal ob)
        | _ \<Rightarrow> None),
      (TextMarshalable, \<lambda>v h. case v of
          BodyOther ob \<Rightarrow> map_option (\<lambda>r. marshalled r h) (MarshalText ob)
        | _ \<Rightarrow> None),
      (CustomString, \<lambda>v h. case v of
          BodyOther ob \<Rightarrow> map_option (\<lambda>s. Inr (s, h, [])) (Stringer ob)
        | _ \<Rightarrow> None),
      (GenericDefault, \<lambda>v h. case v of
          BodyOther ob \<Rightarrow> Some (Inr (Sprintf_v ob, h, []))
        | BodyNil \<Rightarrow> Some (Inr (''<nil>'', h, []))
        | _ \<Rightarrow> None)]"

fun first_match ::
  "(body_kind \<times> (body_any \<Rightarrow> (string \<rightharpoonup> string) \<Rightarrow> serialized option)) list \<Rightarrow>
   body_any \<Rightarrow> (string \<rightharpoonup> string) \<Rightarrow> (body_kind \<times> serialized) option"
where
  "first_match [] v h = None"
| "first_match ((k, f) # cs) v h =
     (case f v h of Some r \<Rightarrow> Some (k, r) | None \<Rightarrow> first_match cs v h)"

subsection \<open>Concrete runs\<close>

text \<open>
  \<open>world r u\<close> is an environment in which the client answers \<open>r\<close> and the codec
  answers \<open>u\<close>, with the default timeout of 60 seconds and a request constructor that
  accepts the method and the URL.
\<close>

definition world :: "do_result \<Rightarrow> codec_end \<times> data_any \<Rightarrow> env" where
  "world r u = \<lparr>TimeOut = 60, http_NewRequest = (\<lambda>m u. None), Client_Do = (\<lambda>rq. r),
                yaml_Unmarshal = (\<lambda>b d. u)\<rparr>"

definition response :: "int \<Rightarrow> string \<Rightarrow> string \<Rightarrow> http_Response" where
  "response code st b = \<lparr>Status = st, StatusCode = code, ResBody = Inr b\<rparr>"

text \<open>\<^verbatim>\<open>&web.Req{URL: u, Query: q, Body: b, Data: d}\<close>\<close>

definition a_req :: "string \<Rightarrow> url_Values \<Rightarrow> body_any \<Rightarrow> data_any \<Rightarrow> Req" where
  "a_req u q b d = \<lparr>Method = [], URL = u, Query = q, Headers = None, Body = b, Data = d,
                    Context = None, Resp = RespNil\<rparr>"

text \<open>A value of a type with none of the four interfaces, such as the int 42.\<close>

definition plain_value :: "string \<Rightarrow> other_body" where
  "plain_value s = \<lparr>yaml_Marshal = None, json_Marshal = None, MarshalText = None, Stringer = None,
                    Sprintf_v = s\<rparr>"

text \<open>
  A value of a type with both \<^verbatim>\<open>MarshalJSON\<close> and \<^verbatim>\<open>String\<close>.
\<close>

definition seven :: other_body where
  "seven = \<lparr>yaml_Marshal = None, json_Marshal = Some (Inr ''7''), MarshalText = None,
            Stringer = Some ''seven'', Sprintf_v = ''{7}''\<rparr>"

definition items :: string where
  "items = ''http://127.0.0.1:8080/items''"

definition no_content :: env where
  "no_content = world (DoResp (response 204 ''204 No Content'' [])) (Decoded, DataMap (Some []))"

definition not_found :: env where
  "not_found = world (DoResp (response 404 ''404 Not Found'' ''no such item''))
                     (Decoded, DataMap (Some []))"

definition worked :: env where
  "worked = world (DoResp (response 200 ''200 OK'' ''get: WORKED''))
                  (Decoded, DataMap (Some [(''get'', DynStr ''WORKED'')]))"

definition truncated :: env where
  "truncated = world (DoResp (response 200 ''200 OK'' ''{''))
                     (DecodeError ''yaml: line 1: did not find expected node content'',
                      DataMap (Some []))"

definition refused :: env where
  "refused = world (DoErr None ''dial tcp 127.0.0.1:8080: connect: connection refused'')
                   (Decoded, DataMap (Some []))"

text \<open>
  The server answers every request with a redirect; the client follows ten of them,
  gives up, and returns the last response together with its error.
\<close>

definition redirected :: env where
  "redirected = world (DoErr (Some (response 302 ''302 Found'' [])) ''stopped after 10 redirects'')
                      (Decoded, DataMap (Some []))"

text \<open>
  The server answers 200 OK with the body \<^verbatim>\<open>hello\<close>, and the destination is the nil
  interface: the codec panics.
\<close>

definition into_nil :: env where
  "into_nil = world (DoResp (response 200 ''200 OK'' ''hello''))
                    (DecodePanic ''reflect: call of reflect.Value.Type on zero Value'', DataNil)"

section \<open>Properties\<close>

subsection \<open>Auxiliary facts\<close>

lemmas run =
  Submit_def transact_def body_switch_def data_switch_def unmarshal_into_def marshalled_def
  Encode_def values_of_def QueryEscape_def escape_byte_def shouldEscape_def
  Itoa_def FormatUint.simps digit_def Let_def
  world_def response_def a_req_def plain_value_def seven_def items_def
  no_content_def not_found_def worked_def truncated_def refused_def redirected_def
  into_nil_def

lemma strings_Index_qmark: "(0 \<le> strings_Index s ''?'') = (CHR ''?'' \<in> set s)"
  by (induction s) (auto simp: Let_def)

lemma sent_append: "sent (xs @ ys) = sent xs @ sent ys"
  by (induction xs rule: sent.induct) simp_all

lemma after_Do_append: "sent xs = [] \<Longrightarrow> after_Do (xs @ ys) = after_Do ys"
  by (induction xs rule: sent.induct) simp_all

lemma body_switch_logs:
  "body_switch v h = Inr (buf, h', logs) \<Longrightarrow> sent logs = []"
  by (auto simp: body_switch_def marshalled_def split: body_any.splits option.splits sum.splits)

lemma data_switch_evs: "data_switch e b d = (r, d', evs) \<Longrightarrow> sent evs = []"
  by (auto simp: data_switch_def unmarshal_into_def
           split: data_any.splits if_splits prod.splits codec_end.splits)

lemma sent_transact:
  "sent (ret_trace (transact e req tr fin rq)) = sent tr @ [rq] @ sent fin"
  by (auto simp: transact_def sent_append Let_def dest: data_switch_evs
           split: do_result.splits sum.splits prod.splits)

lemma Submit_rejected:
  assumes "CHR ''?'' \<in> set (URL req)"
  shows "Submit e req =
    \<lparr>ret_err = Some (ReqSyntaxError ''URL contains '?' (use Query instead)''),
     ret_req = (if Method req = [] then req\<lparr>Method := ''GET''\<rparr> else req), ret_trace = []\<rparr>"
  using assms by (simp add: Submit_def Let_def strings_Index_qmark)

lemma Submit_marshal_error:
  assumes "CHR ''?'' \<notin> set (URL req)"
    and "body_switch (Body req) (case Headers req of None \<Rightarrow> Map.empty | Some h \<Rightarrow> h) = Inl msg"
  shows "ret_err (Submit e req) = Some (ExtError msg)"
    and "ret_trace (Submit e req) = []"
    and "URL (ret_req (Submit e req)) = URL req @ ''?'' @ Encode (Query req)"
  using assms by (cases "Method req = []"; simp add: Submit_def Let_def strings_Index_qmark)+

lemma Submit_request_error:
  assumes "CHR ''?'' \<notin> set (URL req)"
    and "body_switch (Body req) (case Headers req of None \<Rightarrow> Map.empty | Some h \<Rightarrow> h) = Inr (buf, h1, logs)"
    and "M = (if Method req = [] then ''GET'' else Method req)"
    and "U = URL req @ ''?'' @ Encode (Query req)"
    and "http_NewRequest e M U = Some msg"
  shows "ret_err (Submit e req) = Some (ExtError msg)"
    and "ret_trace (Submit e req) = logs @ [NewRequest M U buf]"
    and "URL (ret_req (Submit e req)) = U"
    and "Headers (ret_req (Submit e req)) = Some (h1(''Content-Length'' \<mapsto> Itoa (int (length buf))))"
  using assms by (cases "Method req = []"; simp add: Submit_def Let_def strings_Index_qmark)+

lemma Submit_transact:
  assumes "CHR ''?'' \<notin> set (URL req)"
    and "body_switch (Body req) (case Headers req of None \<Rightarrow> Map.empty | Some h \<Rightarrow> h) = Inr (buf, h1, logs)"
    and "M = (if Method req = [] then ''GET'' else Method req)"
    and "U = URL req @ ''?'' @ Encode (Query req)"
    and "http_NewRequest e M U = None"
    and "h2 = h1(''Content-Length'' \<mapsto> Itoa (int (length buf)))"
  shows "Submit e req =
    transact e (req\<lparr>Method := M, URL := U, Headers := Some h2\<rparr>) (logs @ [NewRequest M U buf])
      (if Context req = None then [Cancel] else [])
      \<lparr>rq_Method = M, rq_URL = U, rq_Body = buf, rq_Header = h2,
       rq_Deadline = (if Context req = None then Some (1000000000 * TimeOut e) else None)\<rparr>"
  using assms by (cases "Method req = []"; cases "Context req")
    (simp_all add: Submit_def Let_def strings_Index_qmark)

text \<open>
  A run that hands a request to the client is a run of \<open>transact\<close> on that request,
  with the destination as the caller set it.
\<close>

lemma Submit_reaches_Do:
  assumes sent: "sent (ret_trace (Submit e req)) = [rq]"
  obtains req4 tr where
    "Submit e req = transact e req4 tr (if Context req = None then [Cancel] else []) rq"
    and "sent tr = []" and "Data req4 = Data req"
proof -
  let ?M = "if Method req = [] then ''GET'' else Method req"
  let ?U = "URL req @ ''?'' @ Encode (Query req)"
  have q: "CHR ''?'' \<notin> set (URL req)"
    using sent by (auto simp: Submit_rejected)
  show thesis
  proof (cases "body_switch (Body req) (case Headers req of None \<Rightarrow> Map.empty | Some h \<Rightarrow> h)")
    case (Inl msg)
    with q sent show thesis by (simp add: Submit_marshal_error)
  next
    case (Inr t)
    then obtain buf h1 logs where
      b: "body_switch (Body req) (case Headers req of None \<Rightarrow> Map.empty | Some h \<Rightarrow> h) = Inr (buf, h1, logs)"
      by (cases t) auto
    then have l: "sent logs = []" by (rule body_switch_logs)
    show thesis
    proof (cases "http_NewRequest e ?M ?U")
      case (Some msg)
      from Submit_request_error(2) [OF q b refl refl Some] l sent show thesis
        by (simp add: sent_append)
    next
      case None
      note t = Submit_transact [OF q b refl refl None refl]
      from sent have "rq = \<lparr>rq_Method = ?M, rq_URL = ?U, rq_Body = buf,
           rq_Header = h1(''Content-Length'' \<mapsto> Itoa (int (length buf))),
           rq_Deadline = (if Context req = None then Some (1000000000 * TimeOut e) else None)\<rparr>"
        unfolding t by (simp add: sent_transact sent_append l)
      with t show thesis
        by (intro that [of "req\<lparr>Method := ?M, URL := ?U,
              Headers := Some (h1(''Content-Length'' \<mapsto> Itoa (int (length buf))))\<rparr>"
              "logs @ [NewRequest ?M ?U buf]"]) (simp_all add: sent_append l)
    qed
  qed
qed

lemma transact_frame:
  "URL (ret_req (transact e req tr fin rq)) = URL req"
  "Headers (ret_req (transact e req tr fin rq)) = Headers req"
  "Method (ret_req (transact e req tr fin rq)) = Method req"
  by (auto simp: transact_def Let_def split: do_result.splits sum.splits prod.splits)

lemma in_set_transact: "x \<in> set tr \<Longrightarrow> x \<in> set (ret_trace (transact e req tr fin rq))"
  by (auto simp: transact_def Let_def split: do_result.splits sum.splits prod.splits)

lemma Itoa_zero: "Itoa 0 = ''0''"
  by (simp add: Itoa_def FormatUint.simps digit_def)

lemma Itoa_five: "Itoa 5 = ''5''"
  by (simp add: Itoa_def FormatUint.simps digit_def)

text \<open>
  What every run past the check on the URL does with the serialized body \<open>buf\<close>: the
  URL is extended, the header is set, the request is built from \<open>buf\<close>, and nothing else
  is ever handed to the client.
\<close>

lemma Submit_serialized:
  assumes q: "CHR ''?'' \<notin> set (URL req)"
    and b: "body_switch (Body req) (case Headers req of None \<Rightarrow> Map.empty | Some h \<Rightarrow> h) = Inr (buf, h1, logs)"
    and M: "M = (if Method req = [] then ''GET'' else Method req)"
    and U: "U = URL req @ ''?'' @ Encode (Query req)"
  shows "Headers (ret_req (Submit e req)) = Some (h1(''Content-Length'' \<mapsto> Itoa (int (length buf)))) \<and>
    URL (ret_req (Submit e req)) = U \<and>
    NewRequest M U buf \<in> set (ret_trace (Submit e req)) \<and>
    (\<forall>rq \<in> set (sent (ret_trace (Submit e req))).
       rq_URL rq = U \<and> rq_Body rq = buf \<and>
       rq_Header rq = h1(''Content-Length'' \<mapsto> Itoa (int (length buf)))) \<and>
    length (sent (ret_trace (Submit e req))) = (if http_NewRequest e M U = None then 1 else 0)"
proof -
  have l: "sent logs = []" using b by (rule body_switch_logs)
  show ?thesis
  proof (cases "http_NewRequest e M U")
    case (Some msg)
    from Submit_request_error [OF q b M U Some] l Some show ?thesis
      by (simp add: sent_append)
  next
    case None
    note t = Submit_transact [OF q b M U None refl]
    from None l show ?thesis
      unfolding t by (simp add: transact_frame sent_transact sent_append in_set_transact)
  qed
qed







subsection \<open>The claims\<close>




text \<open>
  Claim C2: when the base URL contains a \<^verbatim>\<open>?\<close>, \<open>Submit\<close> returns the
  \<open>ReqSyntaxError\<close> of line 130 and does nothing on the network: the run has no effect
  at all, no request is built, none is handed to the client, and the result is the same
  whatever the client and the other library calls would have done.
\<close>

theorem C2_query_separator_rejected:
  assumes "CHR ''?'' \<in> set (URL req)"
  shows "ret_err (Submit e req) = Some (ReqSyntaxError ''URL contains '?' (use Query instead)'') \<and>
    ret_trace (Submit e req) = [] \<and>
    sent (ret_trace (Submit e req)) = [] \<and>
    Submit e' req = Submit e req"
  using assms by (simp add: Submit_rejected)

text \<open>C2 at a descriptor whose URL carries its own query string.\<close>

theorem C2_query_separator_rejected_witness:
  "CHR ''?'' \<in> set ''http://127.0.0.1:8080/items?id=3'' \<and>
   ret_err (Submit worked (a_req ''http://127.0.0.1:8080/items?id=3'' [] BodyNil (DataMap (Some []))))
     = Some (ReqSyntaxError ''URL contains '?' (use Query instead)'') \<and>
   ret_trace (Submit worked (a_req ''http://127.0.0.1:8080/items?id=3'' [] BodyNil (DataMap (Some [])))) = []"
proof -
  have h: "CHR ''?'' \<in> set (URL (a_req ''http://127.0.0.1:8080/items?id=3'' [] BodyNil (DataMap (Some []))))"
    by (simp add: a_req_def)
  from C2_query_separator_rejected [OF h, of worked worked] h show ?thesis
    by (simp add: a_req_def)
qed




text \<open>
  Claim C4: the serialization of the body goes by the type of the value, in the priority
  order form-encoded values (which also set the Content-Type), raw bytes (nothing is
  produced), string, YAML marshaler, JSON marshaler, text marshaler, Stringer, default
  formatting, and the first case that matches wins. The switch of the code computes what
  the first matching case of the specification's list computes; and a JSON marshaler
  that is no YAML marshaler takes the JSON case, whatever else it implements.
\<close>

theorem C4_body_dispatch_order:
  "map_option snd (first_match spec_cases v h) = Some (body_switch v h) \<and>
   (yaml_Marshal ob = None \<and> json_Marshal ob = Some r \<longrightarrow>
      first_match spec_cases (BodyOther ob) h = Some (JSONMarshalable, marshalled r h) \<and>
      body_switch (BodyOther ob) h = marshalled r h)"
  by (auto simp: spec_cases_def body_switch_def split: body_any.splits option.splits)

text \<open>C4 at a value that is a JSON marshaler and a Stringer: the JSON text is the body.\<close>

theorem C4_body_dispatch_order_witness:
  "yaml_Marshal seven = None \<and> json_Marshal seven = Some (Inr ''7'') \<and>
   Stringer seven = Some ''seven'' \<and>
   first_match spec_cases (BodyOther seven) Map.empty
     = Some (JSONMarshalable, Inr (''7'', Map.empty, [])) \<and>
   body_switch (BodyOther seven) Map.empty = Inr (''7'', Map.empty, [])"
proof -
  have a: "yaml_Marshal seven = None \<and> json_Marshal seven = Some (Inr ''7'')"
    by (simp add: seven_def)
  have b: "Stringer seven = Some ''seven''"
    by (simp add: seven_def)
  from C4_body_dispatch_order [of "BodyOther seven" Map.empty seven "Inr ''7''"] a b
  show ?thesis
    by (simp add: marshalled_def)
qed

text \<open>
  Claim C5: for every body that serializes to \<open>buf\<close>, \<open>Submit\<close> sets the header
  Content-Length to the decimal length of \<open>buf\<close>, on the descriptor and on every request
  it hands to the client, whose body is \<open>buf\<close>; and an empty \<open>buf\<close> is no error: the
  request is built with the empty body and the header is \<^verbatim>\<open>0\<close>.
\<close>

theorem C5_content_length:
  assumes "CHR ''?'' \<notin> set (URL req)"
    and "body_switch (Body req) (case Headers req of None \<Rightarrow> Map.empty | Some h \<Rightarrow> h)
           = Inr (buf, h1, logs)"
  shows "(\<exists>h. Headers (ret_req (Submit e req)) = Some h \<and>
              h ''Content-Length'' = Some (Itoa (int (length buf)))) \<and>
    NewRequest (if Method req = [] then ''GET'' else Method req)
               (URL req @ ''?'' @ Encode (Query req)) buf \<in> set (ret_trace (Submit e req)) \<and>
    (\<forall>rq \<in> set (sent (ret_trace (Submit e req))).
       rq_Body rq = buf \<and> rq_Header rq ''Content-Length'' = Some (Itoa (int (length buf)))) \<and>
    (buf = [] \<longrightarrow>
       (\<exists>h. Headers (ret_req (Submit e req)) = Some h \<and> h ''Content-Length'' = Some ''0''))"
  using Submit_serialized [OF assms refl refl, of e] by (auto simp: Itoa_zero)

text \<open>C5 at a string body of five bytes and at a byte-slice body, which serializes to nothing.\<close>

theorem C5_content_length_witness:
  "map rq_Body (sent (ret_trace (Submit no_content (a_req items [] (BodyString ''a=b c'') DataNil))))
     = [''a=b c''] \<and>
   map (\<lambda>rq. rq_Header rq ''Content-Length'')
       (sent (ret_trace (Submit no_content (a_req items [] (BodyString ''a=b c'') DataNil))))
     = [Some ''5''] \<and>
   map rq_Body (sent (ret_trace (Submit no_content (a_req items [] (BodyBytes ''abc'') DataNil))))
     = [[]] \<and>
   map (\<lambda>rq. rq_Header rq ''Content-Length'')
       (sent (ret_trace (Submit no_content (a_req items [] (BodyBytes ''abc'') DataNil))))
     = [Some ''0'']"
proof -
  let ?r1 = "a_req items [] (BodyString ''a=b c'') DataNil"
  let ?r2 = "a_req items [] (BodyBytes ''abc'') DataNil"
  have q1: "CHR ''?'' \<notin> set (URL ?r1)" and q2: "CHR ''?'' \<notin> set (URL ?r2)"
    by (simp_all add: a_req_def items_def)
  have b1: "body_switch (Body ?r1) (case Headers ?r1 of None \<Rightarrow> Map.empty | Some h \<Rightarrow> h)
              = Inr (''a=b c'', Map.empty, [])"
    by (simp add: a_req_def body_switch_def)
  have b2: "body_switch (Body ?r2) (case Headers ?r2 of None \<Rightarrow> Map.empty | Some h \<Rightarrow> h)
              = Inr ([], Map.empty, [Log ''planned, but unimplemented, would uuencode''])"
    by (simp add: a_req_def body_switch_def)
  have s1: "length (sent (ret_trace (Submit no_content ?r1))) = 1"
    and s2: "length (sent (ret_trace (Submit no_content ?r2))) = 1"
    by (simp_all add: run)
  from s1 obtain x where x: "sent (ret_trace (Submit no_content ?r1)) = [x]"
    by (cases "sent (ret_trace (Submit no_content ?r1))") auto
  from s2 obtain y where y: "sent (ret_trace (Submit no_content ?r2)) = [y]"
    by (cases "sent (ret_trace (Submit no_content ?r2))") auto
  from C5_content_length [OF q1 b1, of no_content] C5_content_length [OF q2 b2, of no_content] x y
  show ?thesis
    by (simp add: Itoa_five Itoa_zero)
qed

text \<open>
  Claim C6: in every run that calls the client, what the client returned as response is
  stored on the descriptor, whether the call succeeded or failed and whatever \<open>Submit\<close>
  returns afterwards.
\<close>

theorem C6_response_recorded:
  assumes "sent (ret_trace (Submit e req)) = [rq]"
  shows "Resp (ret_req (Submit e req)) =
           RespPtr (case Client_Do e rq of DoResp res \<Rightarrow> Some res | DoErr res msg \<Rightarrow> res)"
proof -
  from assms obtain req4 tr where
    t: "Submit e req = transact e req4 tr (if Context req = None then [Cancel] else []) rq"
    by (rule Submit_reaches_Do)
  show ?thesis
    unfolding t
    by (auto simp: transact_def Let_def split: do_result.splits sum.splits prod.splits)
qed

text \<open>C6 at a refused connection, at a 404 and at a 200.\<close>

theorem C6_response_recorded_witness:
  "Resp (ret_req (Submit refused (a_req items [] BodyNil (DataMap (Some []))))) = RespPtr None \<and>
   Resp (ret_req (Submit not_found (a_req items [] BodyNil (DataMap (Some [])))))
     = RespPtr (Some (response 404 ''404 Not Found'' ''no such item'')) \<and>
   Resp (ret_req (Submit worked (a_req items [] BodyNil (DataMap (Some [])))))
     = RespPtr (Some (response 200 ''200 OK'' ''get: WORKED''))"
proof -
  let ?req = "a_req items [] BodyNil (DataMap (Some []))"
  have s1: "sent (ret_trace (Submit refused ?req)) = [hd (sent (ret_trace (Submit refused ?req)))]"
    by (simp add: run)
  have s2: "sent (ret_trace (Submit not_found ?req)) = [hd (sent (ret_trace (Submit not_found ?req)))]"
    by (simp add: run)
  have s3: "sent (ret_trace (Submit worked ?req)) = [hd (sent (ret_trace (Submit worked ?req)))]"
    by (simp add: run)
  from C6_response_recorded [OF s1] C6_response_recorded [OF s2] C6_response_recorded [OF s3]
  show ?thesis
    by (simp add: refused_def not_found_def worked_def world_def)
qed

text \<open>
  Claim C7: when the client returns an error, \<open>Submit\<close> returns that error as it is,
  not an \<open>HTTPError\<close>.
\<close>

theorem C7_transport_error_verbatim:
  assumes "sent (ret_trace (Submit e req)) = [rq]" and "Client_Do e rq = DoErr res msg"
  shows "ret_err (Submit e req) = Some (ExtError msg)"
proof -
  from assms(1) obtain req4 tr where
    t: "Submit e req = transact e req4 tr (if Context req = None then [Cancel] else []) rq"
    by (rule Submit_reaches_Do)
  show ?thesis
    unfolding t using assms(2) by (simp add: transact_def)
qed

text \<open>C7 at a refused connection.\<close>

theorem C7_transport_error_verbatim_witness:
  "ret_err (Submit refused (a_req items [] BodyNil (DataMap (Some []))))
     = Some (ExtError ''dial tcp 127.0.0.1:8080: connect: connection refused'')"
proof -
  let ?req = "a_req items [] BodyNil (DataMap (Some []))"
  have s: "sent (ret_trace (Submit refused ?req)) = [hd (sent (ret_trace (Submit refused ?req)))]"
    by (simp add: run)
  have d: "Client_Do refused (hd (sent (ret_trace (Submit refused ?req))))
             = DoErr None ''dial tcp 127.0.0.1:8080: connect: connection refused''"
    by (simp add: refused_def world_def)
  from C7_transport_error_verbatim [OF s d] show ?thesis .
qed

text \<open>
  Claim C8: when the response has a status code in [200,300) and an empty body,
  \<open>Submit\<close> returns no error, the destination is as the caller set it, and after the
  call of the client nothing happens but the deferred cancel: no case of the switch on
  the destination runs.
\<close>

theorem C8_empty_body_leaves_destination:
  assumes "sent (ret_trace (Submit e req)) = [rq]" and "Client_Do e rq = DoResp res"
    and "200 \<le> StatusCode res" and "StatusCode res < 300" and "ResBody res = Inr []"
  shows "ret_err (Submit e req) = None \<and> Data (ret_req (Submit e req)) = Data req \<and>
    after_Do (ret_trace (Submit e req)) = (if Context req = None then [Cancel] else [])"
proof -
  from assms(1) obtain req4 tr where
    t: "Submit e req = transact e req4 tr (if Context req = None then [Cancel] else []) rq"
    and s: "sent tr = []" and d: "Data req4 = Data req"
    by (rule Submit_reaches_Do)
  show ?thesis
    unfolding t using assms(2-5) s d by (simp add: transact_def after_Do_append)
qed

text \<open>C8 at a 204 with a string destination.\<close>

theorem C8_empty_body_leaves_destination_witness:
  "ret_err (Submit no_content (a_req items [] BodyNil (DataString ''before''))) = None \<and>
   Data (ret_req (Submit no_content (a_req items [] BodyNil (DataString ''before''))))
     = DataString ''before'' \<and>
   after_Do (ret_trace (Submit no_content (a_req items [] BodyNil (DataString ''before''))))
     = [Cancel]"
proof -
  let ?req = "a_req items [] BodyNil (DataString ''before'')"
  let ?res = "response 204 ''204 No Content'' []"
  have s: "sent (ret_trace (Submit no_content ?req)) = [hd (sent (ret_trace (Submit no_content ?req)))]"
    by (simp add: run)
  have d: "Client_Do no_content (hd (sent (ret_trace (Submit no_content ?req)))) = DoResp ?res"
    by (simp add: no_content_def world_def)
  have c: "200 \<le> StatusCode ?res" "StatusCode ?res < 300" "ResBody ?res = Inr []"
    by (simp_all add: response_def)
  from C8_empty_body_leaves_destination [OF s d c] show ?thesis
    by (simp add: a_req_def)
qed

text \<open>
  Claim C9: for a base URL without \<^verbatim>\<open>?\<close>, \<open>Submit\<close> appends \<^verbatim>\<open>?\<close> and the encoded
  query parameters, on the descriptor and in every request it sends; with no query
  parameters the URL ends in the bare \<^verbatim>\<open>?\<close>.
\<close>

theorem C9_query_appended:
  assumes "CHR ''?'' \<notin> set (URL req)"
  shows "URL (ret_req (Submit e req)) = URL req @ ''?'' @ Encode (Query req) \<and>
    (\<forall>rq \<in> set (sent (ret_trace (Submit e req))).
       rq_URL rq = URL req @ ''?'' @ Encode (Query req)) \<and>
    (Query req = [] \<longrightarrow> URL (ret_req (Submit e req)) = URL req @ ''?'')"
proof (cases "body_switch (Body req) (case Headers req of None \<Rightarrow> Map.empty | Some h \<Rightarrow> h)")
  case (Inl msg)
  from Submit_marshal_error [OF assms Inl, of e] show ?thesis
    by (auto simp: Encode_def)
next
  case (Inr t)
  then obtain buf h1 logs where
    "body_switch (Body req) (case Headers req of None \<Rightarrow> Map.empty | Some h \<Rightarrow> h) = Inr (buf, h1, logs)"
    by (cases t) auto
  from Submit_serialized [OF assms this refl refl, of e] show ?thesis
    by (auto simp: Encode_def)
qed

text \<open>C9 with no parameters, and with two keys, one of them with two values.\<close>

theorem C9_query_appended_witness:
  "URL (ret_req (Submit worked (a_req items [] BodyNil (DataMap (Some [])))))
     = ''http://127.0.0.1:8080/items?'' \<and>
   map rq_URL (sent (ret_trace (Submit worked (a_req items [] BodyNil (DataMap (Some []))))))
     = [''http://127.0.0.1:8080/items?''] \<and>
   URL (ret_req (Submit worked
       (a_req items [(''q'', [''a b'', ''c&d'']), (''id'', [''3''])] BodyNil (DataMap (Some [])))))
     = ''http://127.0.0.1:8080/items?id=3&q=a+b&q=c%26d''"
proof -
  let ?r1 = "a_req items [] BodyNil (DataMap (Some []))"
  let ?r2 = "a_req items [(''q'', [''a b'', ''c&d'']), (''id'', [''3''])] BodyNil (DataMap (Some []))"
  have q1: "CHR ''?'' \<notin> set (URL ?r1)" and q2: "CHR ''?'' \<notin> set (URL ?r2)"
    by (simp_all add: a_req_def items_def)
  have e2: "Encode (Query ?r2) = ''id=3&q=a+b&q=c%26d''"
    by (simp add: a_req_def Encode_def values_of_def QueryEscape_def escape_byte_def
          shouldEscape_def digit_def)
  have e1: "Encode (Query ?r1) = []"
    by (simp add: a_req_def Encode_def)
  have "length (sent (ret_trace (Submit worked ?r1))) = 1"
    by (simp add: run)
  then obtain x where x: "sent (ret_trace (Submit worked ?r1)) = [x]"
    by (cases "sent (ret_trace (Submit worked ?r1))") auto
  from C9_query_appended [OF q1, of worked] C9_query_appended [OF q2, of worked] e1 e2 x
  show ?thesis
    by (simp add: a_req_def items_def)
qed

text \<open>
  Claim C10: with a nil body the switch falls to its default case, so the request is
  built with the five bytes \<^verbatim>\<open><nil>\<close> as body and the header Content-Length is
  \<^verbatim>\<open>5\<close>; the request goes to the client whenever net/http accepts method and URL.
\<close>

theorem C10_nil_body:
  assumes "CHR ''?'' \<notin> set (URL req)" and "Body req = BodyNil"
  shows "(\<exists>h. Headers (ret_req (Submit e req)) = Some h \<and> h ''Content-Length'' = Some ''5'') \<and>
    NewRequest (if Method req = [] then ''GET'' else Method req)
               (URL req @ ''?'' @ Encode (Query req)) ''<nil>'' \<in> set (ret_trace (Submit e req)) \<and>
    (\<forall>rq \<in> set (sent (ret_trace (Submit e req))).
       rq_Body rq = ''<nil>'' \<and> rq_Header rq ''Content-Length'' = Some ''5'') \<and>
    length (sent (ret_trace (Submit e req))) =
      (if http_NewRequest e (if Method req = [] then ''GET'' else Method req)
                            (URL req @ ''?'' @ Encode (Query req)) = None then 1 else 0)"
proof -
  have b: "body_switch (Body req) (case Headers req of None \<Rightarrow> Map.empty | Some h \<Rightarrow> h)
             = Inr (''<nil>'', (case Headers req of None \<Rightarrow> Map.empty | Some h \<Rightarrow> h), [])"
    using assms(2) by (simp add: body_switch_def)
  from Submit_serialized [OF assms(1) b refl refl, of e] show ?thesis
    by (simp add: Itoa_five)
qed

text \<open>C10 at a GET without body.\<close>

theorem C10_nil_body_witness:
  "map rq_Body (sent (ret_trace (Submit worked (a_req items [] BodyNil (DataMap (Some []))))))
     = [''<nil>''] \<and>
   map (\<lambda>rq. rq_Header rq ''Content-Length'')
       (sent (ret_trace (Submit worked (a_req items [] BodyNil (DataMap (Some [])))))) = [Some ''5'']"
proof -
  let ?req = "a_req items [] BodyNil (DataMap (Some []))"
  have q: "CHR ''?'' \<notin> set (URL ?req)" and b: "Body ?req = BodyNil"
    by (simp_all add: a_req_def items_def)
  have "length (sent (ret_trace (Submit worked ?req))) = 1"
    using C10_nil_body [OF q b, of worked] by (simp add: worked_def world_def)
  then obtain x where x: "sent (ret_trace (Submit worked ?req)) = [x]"
    by (cases "sent (ret_trace (Submit worked ?req))") auto
  with C10_nil_body [OF q b, of worked] show ?thesis
    by simp
qed

end
